theory Spec2Isabelle
  imports Main "HOL-Library.Word"
begin

unbundle bit_operations_syntax

section \<open>Bytes, errors and the error monad\<close>

text \<open>
  The two scripts \<^verbatim>\<open>create_ico.py\<close> and \<^verbatim>\<open>create_placeholders.py\<close> build byte strings
  with \<^verbatim>\<open>struct.pack\<close> and write them to files. A Python \<^verbatim>\<open>bytes\<close> value is a list of
  8-bit words, a Python integer is an \<open>int\<close>. The two exceptions that the code can raise
  are values: \<^verbatim>\<open>struct.error\<close> (raised by \<^verbatim>\<open>struct.pack\<close>) and \<^verbatim>\<open>OSError\<close> (raised by
  \<^verbatim>\<open>open\<close>).
\<close>

type_synonym byte = "8 word"

datatype error = StructError | OSError

definition bind_err :: "error + 'a \<Rightarrow> ('a \<Rightarrow> error + 'b) \<Rightarrow> error + 'b" where
  "bind_err r f = (case r of Inl e \<Rightarrow> Inl e | Inr x \<Rightarrow> f x)"

text \<open>A bytes literal made of ASCII characters, such as \<^verbatim>\<open>b'IHDR'\<close>.\<close>

definition ascii :: "string \<Rightarrow> byte list" where
  "ascii s = map of_char s"

section \<open>\<^verbatim>\<open>struct.pack\<close>\<close>

text \<open>
  The formats used by the scripts start with a byte-order character (\<^verbatim>\<open><\<close> little-endian,
  \<^verbatim>\<open>>\<close> big-endian, both with standard sizes and no padding) followed by the item codes
  \<^verbatim>\<open>B\<close> (1 byte), \<^verbatim>\<open>H\<close> (2 bytes) and \<^verbatim>\<open>I\<close> (4 bytes), all unsigned. \<^verbatim>\<open>struct.pack\<close>
  raises \<^verbatim>\<open>struct.error\<close> when the number of arguments differs from the number of items of
  the format, and when an argument is outside the range of its item. Formats outside this
  fragment are not used by the scripts; the model rejects them.
\<close>

datatype byte_order = LittleEndian | BigEndian

definition code_size :: "char \<Rightarrow> nat option" where
  "code_size c =
     (if c = CHR ''B'' then Some 1
      else if c = CHR ''H'' then Some 2
      else if c = CHR ''I'' then Some 4
      else None)"

fun format_codes :: "string \<Rightarrow> nat list option" where
  "format_codes [] = Some []"
| "format_codes (c # cs) =
     (case code_size c of
        None \<Rightarrow> None
      | Some n \<Rightarrow> (case format_codes cs of None \<Rightarrow> None | Some ns \<Rightarrow> Some (n # ns)))"

definition parse_format :: "string \<Rightarrow> (byte_order \<times> nat list) option" where
  "parse_format fmt =
     (case fmt of
        [] \<Rightarrow> None
      | c # cs \<Rightarrow>
          if c = CHR ''<'' then map_option (Pair LittleEndian) (format_codes cs)
          else if c = CHR ''>'' then map_option (Pair BigEndian) (format_codes cs)
          else None)"

text \<open>\<^verbatim>\<open>struct.calcsize\<close>: the number of bytes a format describes.\<close>

definition calcsize :: "string \<Rightarrow> nat option" where
  "calcsize fmt = map_option (\<lambda>(bo, ns). sum_list ns) (parse_format fmt)"

fun le_bytes :: "nat \<Rightarrow> int \<Rightarrow> byte list" where
  "le_bytes 0 v = []"
| "le_bytes (Suc n) v = word_of_int (v mod 256) # le_bytes n (v div 256)"

definition encode :: "byte_order \<Rightarrow> nat \<Rightarrow> int \<Rightarrow> byte list" where
  "encode bo n v = (case bo of LittleEndian \<Rightarrow> le_bytes n v | BigEndian \<Rightarrow> rev (le_bytes n v))"

fun pack_items :: "byte_order \<Rightarrow> nat list \<Rightarrow> int list \<Rightarrow> error + byte list" where
  "pack_items bo [] [] = Inr []"
| "pack_items bo (n # ns) (v # vs) =
     (if 0 \<le> v \<and> v < 2 ^ (8 * n)
      then bind_err (pack_items bo ns vs) (\<lambda>bs. Inr (encode bo n v @ bs))
      else Inl StructError)"
| "pack_items bo _ _ = Inl StructError"

definition pack :: "string \<Rightarrow> int list \<Rightarrow> error + byte list" where
  "pack fmt vs =
     (case parse_format fmt of
        None \<Rightarrow> Inl StructError
      | Some (bo, ns) \<Rightarrow>
          if length ns \<noteq> length vs then Inl StructError else pack_items bo ns vs)"

section \<open>Files and standard output\<close>

text \<open>
  The state the scripts act on: the content of each file (if it exists), the lines printed
  so far, and for each file name whether opening it for writing fails.
  \<^verbatim>\<open>open(filename, 'wb')\<close> creates the file or truncates it; \<^verbatim>\<open>f.write\<close> appends to it.
\<close>

record world =
  files :: "string \<Rightarrow> byte list option"
  io_fails :: "string \<Rightarrow> bool"
  stdout :: "string list"

definition open_wb :: "string \<Rightarrow> world \<Rightarrow> error + world" where
  "open_wb filename w =
     (if io_fails w filename then Inl OSError
      else Inr (w\<lparr>files := (files w)(filename \<mapsto> [])\<rparr>))"

definition file_write :: "string \<Rightarrow> byte list \<Rightarrow> world \<Rightarrow> error + world" where
  "file_write filename bs w =
     Inr (w\<lparr>files := (files w)(filename \<mapsto>
            (case files w filename of None \<Rightarrow> [] | Some old \<Rightarrow> old) @ bs)\<rparr>)"

definition print :: "string \<Rightarrow> world \<Rightarrow> error + world" where
  "print line w = Inr (w\<lparr>stdout := stdout w @ [line]\<rparr>)"

section \<open>\<^verbatim>\<open>create_placeholders.py\<close>\<close>

text \<open>
  The bytes that \<^verbatim>\<open>create_minimal_png\<close> builds in memory (lines 6 to 22, and the
  concatenation of line 25).
\<close>

definition create_minimal_png_bytes :: "int \<Rightarrow> int \<Rightarrow> error + byte list" where
  "create_minimal_png_bytes width height =
     (let signature = [0x89] @ ascii ''PNG'' @ [0x0D, 0x0A, 0x1A, 0x0A] in
      bind_err (pack ''>IIBBBBB'' [width, height, 8, 2, 0, 0, 0]) (\<lambda>ihdr_data.
      let ihdr_crc = 0x90773496;
          ihdr_chunk = ascii ''IHDR'' @ ihdr_data in
      bind_err (pack ''>I'' [13]) (\<lambda>ihdr_len.
      bind_err (pack ''>I'' [ihdr_crc]) (\<lambda>ihdr_crc_bytes.
      let ihdr = ihdr_len @ ihdr_chunk @ ihdr_crc_bytes;
          idat_data = [0x08, 0x1d, 0x01, 0x01, 0x00, 0xfe, 0xff, 0x00, 0x00, 0x00, 0x01, 0x00, 0x01];
          idat_crc = 0xe1240dc9;
          idat_chunk = ascii ''IDAT'' @ idat_data in
      bind_err (pack ''>I'' [int (length idat_data)]) (\<lambda>idat_len.
      bind_err (pack ''>I'' [idat_crc]) (\<lambda>idat_crc_bytes.
      let idat = idat_len @ idat_chunk @ idat_crc_bytes;
          iend_crc = 0xae426082 in
      bind_err (pack ''>I'' [0]) (\<lambda>iend_len.
      bind_err (pack ''>I'' [iend_crc]) (\<lambda>iend_crc_bytes.
      let iend = iend_len @ ascii ''IEND'' @ iend_crc_bytes in
      Inr (signature @ ihdr @ idat @ iend)))))))))"

definition create_minimal_png :: "int \<Rightarrow> int \<Rightarrow> string \<Rightarrow> world \<Rightarrow> error + world" where
  "create_minimal_png width height filename w =
     bind_err (create_minimal_png_bytes width height) (\<lambda>bs.
     bind_err (open_wb filename w) (\<lambda>w1.
     file_write filename bs w1))"

text \<open>The module body: three calls and the confirmation message.\<close>

definition create_placeholders_main :: "world \<Rightarrow> error + world" where
  "create_placeholders_main w =
     bind_err (create_minimal_png 32 32 ''32x32.png'' w) (\<lambda>w1.
     bind_err (create_minimal_png 128 128 ''128x128.png'' w1) (\<lambda>w2.
     bind_err (create_minimal_png 128 128 ''128x128@2x.png'' w2) (\<lambda>w3.
     print ''PNG files created successfully'' w3)))"

section \<open>\<^verbatim>\<open>create_ico.py\<close>\<close>

text \<open>The byte strings that \<^verbatim>\<open>create_minimal_ico\<close> builds before it opens the file.\<close>

record ico_parts =
  ico_header :: "byte list"
  dir_entry :: "byte list"
  bmp_header :: "byte list"
  image_data :: "byte list"

definition create_minimal_ico_parts :: "error + ico_parts" where
  "create_minimal_ico_parts =
     (let width = 32; height = 32 in
      bind_err (pack ''<HHH'' [0, 1, 1]) (\<lambda>ico_header.
      let image_data = replicate (nat (width * height * 4)) (0 :: byte) in
      bind_err (pack ''<IHHHHHIIHHHII''
                  [40, width, height * 2, 1, 32, 0, int (length image_data), 0, 0, 0, 0])
        (\<lambda>bmp_header.
      let image_size = int (length bmp_header) + int (length image_data) in
      bind_err (pack ''<BBBBHHI'' [width, height, 0, 0, 1, 32, image_size]) (\<lambda>dir_entry.
      bind_err (pack ''<I'' [22]) (\<lambda>offset.
      let dir_entry = dir_entry @ offset in
      Inr \<lparr>ico_header = ico_header, dir_entry = dir_entry,
           bmp_header = bmp_header, image_data = image_data\<rparr>)))))"

definition create_minimal_ico :: "string \<Rightarrow> world \<Rightarrow> error + world" where
  "create_minimal_ico filename w =
     bind_err create_minimal_ico_parts (\<lambda>p.
     bind_err (open_wb filename w) (\<lambda>f.
     bind_err (file_write filename (ico_header p) f) (\<lambda>f.
     bind_err (file_write filename (dir_entry p) f) (\<lambda>f.
     bind_err (file_write filename (bmp_header p) f) (\<lambda>f.
     file_write filename (image_data p) f)))))"

definition create_ico_main :: "world \<Rightarrow> error + world" where
  "create_ico_main w =
     bind_err (create_minimal_ico ''icon.ico'' w) (\<lambda>w1.
     print ''ICO file created successfully'' w1)"

section \<open>Reading the output back\<close>

text \<open>
  The claims speak of the fields of the files: of integers decoded from bytes, of the
  chunks of a PNG stream and of their CRC-32. These definitions are not part of the
  scripts; they follow the PNG format as the specification describes it, and are what the
  output of the scripts is compared with.
\<close>

text \<open>Unsigned integers, most significant byte first and least significant byte first.\<close>

definition be_uint :: "byte list \<Rightarrow> int" where
  "be_uint bs = foldl (\<lambda>acc b. acc * 256 + uint b) 0 bs"

definition le_uint :: "byte list \<Rightarrow> int" where
  "le_uint bs = foldr (\<lambda>b acc. acc * 256 + uint b) bs 0"

text \<open>
  The standard CRC-32 of PNG chunks (the one of \<^verbatim>\<open>zlib.crc32\<close>): reflected polynomial
  0xEDB88320, initial value and final complement 0xFFFFFFFF, eight shifts for each byte.
\<close>

definition crc_shift :: "32 word \<Rightarrow> 32 word" where
  "crc_shift c = (if bit c 0 then drop_bit 1 c XOR 0xEDB88320 else drop_bit 1 c)"

definition crc_update :: "32 word \<Rightarrow> byte \<Rightarrow> 32 word" where
  "crc_update c b =
     crc_shift (crc_shift (crc_shift (crc_shift
       (crc_shift (crc_shift (crc_shift (crc_shift (c XOR ucast b))))))))"

definition crc32 :: "byte list \<Rightarrow> 32 word" where
  "crc32 bs = foldl crc_update 0xFFFFFFFF bs XOR 0xFFFFFFFF"

text \<open>
  A chunk is a 4-byte big-endian length, a 4-byte type tag, as many data bytes as the
  length says, and a 4-byte big-endian CRC. \<open>parse_chunks\<close> reads chunks until the input is
  used up, and fails when the input ends inside a chunk.
\<close>

record chunk =
  chunk_length :: int
  chunk_type :: "byte list"
  chunk_data :: "byte list"
  chunk_crc :: "32 word"

function parse_chunks :: "byte list \<Rightarrow> chunk list option" where
  "parse_chunks bs =
     (if bs = [] then Some []
      else if length bs < 8 then None
      else if length bs < 12 + nat (be_uint (take 4 bs)) then None
      else (case parse_chunks (drop (12 + nat (be_uint (take 4 bs))) bs) of
              None \<Rightarrow> None
            | Some cs \<Rightarrow>
                Some (\<lparr>chunk_length = be_uint (take 4 bs),
                       chunk_type = take 4 (drop 4 bs),
                       chunk_data = take (nat (be_uint (take 4 bs))) (drop 8 bs),
                       chunk_crc = word_of_int
                         (be_uint (take 4 (drop (8 + nat (be_uint (take 4 bs))) bs)))\<rparr> # cs)))"
  by pat_completeness auto
termination
  by (relation "measure length") auto

declare parse_chunks.simps [simp del]

definition png_signature :: "byte list" where
  "png_signature = [0x89, 0x50, 0x4E, 0x47, 0x0D, 0x0A, 0x1A, 0x0A]"

text \<open>The chunks of a PNG file: those that follow the 8-byte signature.\<close>

definition png_chunks :: "byte list \<Rightarrow> chunk list option" where
  "png_chunks bs = (if take 8 bs = png_signature then parse_chunks (drop 8 bs) else None)"

text \<open>The width and height that the first chunk of a PNG file declares.\<close>

definition ihdr_dims :: "byte list \<Rightarrow> (int \<times> int) option" where
  "ihdr_dims bs =
     (case png_chunks bs of
        Some (c # cs) \<Rightarrow>
          Some (be_uint (take 4 (chunk_data c)), be_uint (take 4 (drop 4 (chunk_data c))))
      | _ \<Rightarrow> None)"

text \<open>For each chunk of a PNG file, its CRC field and the CRC-32 of its type and data.\<close>

definition chunk_crcs :: "byte list \<Rightarrow> (32 word \<times> 32 word) list option" where
  "chunk_crcs bs =
     map_option (map (\<lambda>c. (chunk_crc c, crc32 (chunk_type c @ chunk_data c)))) (png_chunks bs)"

text \<open>
  What a call leaves behind: the exception it raised, or the content of the named file
  after it returned.
\<close>

definition written :: "string \<Rightarrow> error + world \<Rightarrow> error + byte list option" where
  "written filename r = map_sum id (\<lambda>w. files w filename) r"

text \<open>A state with no file and no output, in which no file operation fails.\<close>

definition empty_world :: world where
  "empty_world = \<lparr>files = (\<lambda>_. None), io_fails = (\<lambda>_. False), stdout = []\<rparr>"

text \<open>The range of the item code \<^verbatim>\<open>I\<close>.\<close>

definition u32 :: "int \<Rightarrow> bool" where
  "u32 v \<longleftrightarrow> 0 \<le> v \<and> v < 2 ^ 32"

text \<open>
  The 70 bytes of a PNG file as the proofs below use them: \<open>png_bytes_layout\<close> shows that
  \<open>create_minimal_png_bytes\<close> computes exactly this list.
\<close>

definition png_layout :: "int \<Rightarrow> int \<Rightarrow> byte list" where
  "png_layout w h =
     [0x89, 0x50, 0x4E, 0x47, 0x0D, 0x0A, 0x1A, 0x0A]
     @ [0, 0, 0, 13] @ [0x49, 0x48, 0x44, 0x52]
     @ rev (le_bytes 4 w) @ rev (le_bytes 4 h) @ [8, 2, 0, 0, 0]
     @ [0x90, 0x77, 0x34, 0x96]
     @ [0, 0, 0, 13] @ [0x49, 0x44, 0x41, 0x54]
     @ [0x08, 0x1d, 0x01, 0x01, 0x00, 0xfe, 0xff, 0x00, 0x00, 0x00, 0x01, 0x00, 0x01]
     @ [0xe1, 0x24, 0x0d, 0xc9]
     @ [0, 0, 0, 0] @ [0x49, 0x45, 0x4E, 0x44] @ [0xae, 0x42, 0x60, 0x82]"

section \<open>Basic facts\<close>

lemma bind_err_Inl [simp]: "bind_err (Inl e) f = Inl e"
  by (simp add: bind_err_def)

lemma bind_err_Inr [simp]: "bind_err (Inr x) f = f x"
  by (simp add: bind_err_def)

lemma le_bytes_1: "le_bytes 1 v = [word_of_int (v mod 256)]"
  by simp

lemma le_bytes_2: "le_bytes 2 v = [word_of_int (v mod 256), word_of_int (v div 256 mod 256)]"
  by (simp add: numeral_2_eq_2)

lemma le_bytes_4:
  "le_bytes 4 v =
     [word_of_int (v mod 256), word_of_int (v div 256 mod 256),
      word_of_int (v div 256 div 256 mod 256), word_of_int (v div 256 div 256 div 256 mod 256)]"
  by (simp add: numeral_eq_Suc)

lemma parse_format_ihdr:
  "parse_format ''>IIBBBBB'' = Some (BigEndian, [4, 4, 1, 1, 1, 1, 1])"
  by (simp add: parse_format_def code_size_def)

lemma parse_format_u32: "parse_format ''>I'' = Some (BigEndian, [4])"
  by (simp add: parse_format_def code_size_def)

lemma parse_format_bmp:
  "parse_format ''<IHHHHHIIHHHII'' = Some (LittleEndian, [4, 2, 2, 2, 2, 2, 4, 4, 2, 2, 2, 4, 4])"
  by (simp add: parse_format_def code_size_def)

lemma pack_u32:
  "pack ''>I'' [v] =
     (if 0 \<le> v \<and> v < 4294967296 then Inr (rev (le_bytes 4 v)) else Inl StructError)"
  by (simp add: pack_def parse_format_u32 encode_def)

lemma pack_ihdr:
  "pack ''>IIBBBBB'' [w, h, 8, 2, 0, 0, 0] =
     (if 0 \<le> w \<and> w < 4294967296 \<and> 0 \<le> h \<and> h < 4294967296
      then Inr (rev (le_bytes 4 w) @ rev (le_bytes 4 h) @ [8, 2, 0, 0, 0])
      else Inl StructError)"
  by (simp add: pack_def parse_format_ihdr encode_def)

lemma pack_ico_header: "pack ''<HHH'' [0, 1, 1] = Inr [0, 0, 1, 0, 1, 0]"
  by (simp add: pack_def parse_format_def code_size_def encode_def le_bytes_2)

lemma ico_parts_error: "create_minimal_ico_parts = Inl StructError"
  by (simp add: create_minimal_ico_parts_def Let_def pack_ico_header)
     (simp add: pack_def parse_format_bmp)

lemma png_bytes_eq:
  "create_minimal_png_bytes w h =
     (if 0 \<le> w \<and> w < 4294967296 \<and> 0 \<le> h \<and> h < 4294967296
      then Inr ([0x89, 0x50, 0x4E, 0x47, 0x0D, 0x0A, 0x1A, 0x0A]
                @ [0, 0, 0, 13] @ [0x49, 0x48, 0x44, 0x52]
                @ rev (le_bytes 4 w) @ rev (le_bytes 4 h) @ [8, 2, 0, 0, 0]
                @ [0x90, 0x77, 0x34, 0x96]
                @ [0, 0, 0, 13] @ [0x49, 0x44, 0x41, 0x54]
                @ [0x08, 0x1d, 0x01, 0x01, 0x00, 0xfe, 0xff, 0x00, 0x00, 0x00, 0x01, 0x00, 0x01]
                @ [0xe1, 0x24, 0x0d, 0xc9]
                @ [0, 0, 0, 0] @ [0x49, 0x45, 0x4E, 0x44] @ [0xae, 0x42, 0x60, 0x82])
      else Inl StructError)"
  by (simp add: create_minimal_png_bytes_def Let_def pack_ihdr pack_u32 le_bytes_4 ascii_def)

lemma uint_byte: "uint (word_of_int (k mod 256) :: byte) = k mod 256"
  by (simp add: uint_word_of_int)

lemma le_uint_le_bytes: "le_uint (le_bytes n v) = v mod 2 ^ (8 * n)"
proof (induction n arbitrary: v)
  case 0
  show ?case by (simp add: le_uint_def)
next
  case (Suc n)
  have "le_uint (le_bytes (Suc n) v) = le_uint (le_bytes n (v div 256)) * 256 + v mod 256"
    by (simp add: le_uint_def uint_byte)
  also have "\<dots> = (v div 256 mod 2 ^ (8 * n)) * 256 + v mod 256"
    by (simp add: Suc.IH)
  also have "\<dots> = v mod (256 * 2 ^ (8 * n))"
    by (simp add: zmod_zmult2_eq)
  finally show ?case by (simp add: power_add)
qed

lemma be_uint_rev: "be_uint (rev bs) = le_uint bs"
  by (simp add: be_uint_def le_uint_def foldr_conv_foldl)

lemma be_uint_u32:
  assumes "0 \<le> v" "v < 4294967296"
  shows "be_uint (rev (le_bytes 4 v)) = v"
  using assms by (simp add: be_uint_rev le_uint_le_bytes)

lemma length_le_bytes [simp]: "length (le_bytes n v) = n"
  by (induction n arbitrary: v) simp_all

lemma parse_chunks_Nil: "parse_chunks [] = Some []"
  by (simp add: parse_chunks.simps)

lemma parse_chunks_step:
  assumes "length len = 4" "be_uint len = int (length d)" "length ty = 4" "length crc = 4"
  shows "parse_chunks (len @ ty @ d @ crc @ rest) =
           map_option
             (Cons \<lparr>chunk_length = int (length d), chunk_type = ty, chunk_data = d,
                    chunk_crc = word_of_int (be_uint crc)\<rparr>)
             (parse_chunks rest)"
proof -
  define bs where "bs = len @ ty @ d @ crc @ rest"
  have n: "nat (be_uint (take 4 bs)) = length d" and l: "be_uint (take 4 bs) = int (length d)"
    using assms by (simp_all add: bs_def)
  have "bs \<noteq> []" "\<not> length bs < 8" "\<not> length bs < 12 + length d"
    using assms by (auto simp add: bs_def)
  moreover have "drop (12 + length d) bs = rest" "take 4 (drop 4 bs) = ty"
    "take (length d) (drop 8 bs) = d" "take 4 (drop (8 + length d) bs) = crc"
    using assms by (simp_all add: bs_def)
  ultimately have "parse_chunks bs =
      map_option
        (Cons \<lparr>chunk_length = int (length d), chunk_type = ty, chunk_data = d,
               chunk_crc = word_of_int (be_uint crc)\<rparr>)
        (parse_chunks rest)"
    by (subst parse_chunks.simps) (simp add: l split: option.split)
  then show ?thesis by (simp only: bs_def)
qed

lemma parse_png:
  "parse_chunks ([0, 0, 0, 13] @ [0x49, 0x48, 0x44, 0x52]
                @ rev (le_bytes 4 w) @ rev (le_bytes 4 h) @ [8, 2, 0, 0, 0]
                @ [0x90, 0x77, 0x34, 0x96]
                @ [0, 0, 0, 13] @ [0x49, 0x44, 0x41, 0x54]
                @ [0x08, 0x1d, 0x01, 0x01, 0x00, 0xfe, 0xff, 0x00, 0x00, 0x00, 0x01, 0x00, 0x01]
                @ [0xe1, 0x24, 0x0d, 0xc9]
                @ [0, 0, 0, 0] @ [0x49, 0x45, 0x4E, 0x44] @ [0xae, 0x42, 0x60, 0x82]) =
     Some [\<lparr>chunk_length = 13, chunk_type = [0x49, 0x48, 0x44, 0x52],
             chunk_data = rev (le_bytes 4 w) @ rev (le_bytes 4 h) @ [8, 2, 0, 0, 0],
             chunk_crc = 0x90773496\<rparr>,
           \<lparr>chunk_length = 13, chunk_type = [0x49, 0x44, 0x41, 0x54],
             chunk_data = [0x08, 0x1d, 0x01, 0x01, 0x00, 0xfe, 0xff, 0x00, 0x00, 0x00, 0x01, 0x00, 0x01],
             chunk_crc = 0xe1240dc9\<rparr>,
           \<lparr>chunk_length = 0, chunk_type = [0x49, 0x45, 0x4E, 0x44],
             chunk_data = [], chunk_crc = 0xae426082\<rparr>]"
proof -
  let ?iend = "[0, 0, 0, 0, 0x49, 0x45, 0x4E, 0x44, 0xae, 0x42, 0x60, 0x82] :: byte list"
  let ?idat = "[0, 0, 0, 13, 0x49, 0x44, 0x41, 0x54,
                0x08, 0x1d, 0x01, 0x01, 0x00, 0xfe, 0xff, 0x00, 0x00, 0x00, 0x01, 0x00, 0x01,
                0xe1, 0x24, 0x0d, 0xc9] :: byte list"
  have iend: "parse_chunks ?iend =
      Some [\<lparr>chunk_length = 0, chunk_type = [0x49, 0x45, 0x4E, 0x44],
             chunk_data = [], chunk_crc = 0xae426082\<rparr>]"
    using parse_chunks_step [of "[0, 0, 0, 0]" "[]" "[0x49, 0x45, 0x4E, 0x44]"
        "[0xae, 0x42, 0x60, 0x82]" "[]"]
    by (simp add: parse_chunks_Nil be_uint_def)
  have idat: "parse_chunks
      [0, 0, 0, 13, 0x49, 0x44, 0x41, 0x54,
       0x08, 0x1d, 0x01, 0x01, 0x00, 0xfe, 0xff, 0x00, 0x00, 0x00, 0x01, 0x00, 0x01,
       0xe1, 0x24, 0x0d, 0xc9, 0, 0, 0, 0, 0x49, 0x45, 0x4E, 0x44, 0xae, 0x42, 0x60, 0x82] =
      Some [\<lparr>chunk_length = 13, chunk_type = [0x49, 0x44, 0x41, 0x54],
             chunk_data = [0x08, 0x1d, 0x01, 0x01, 0x00, 0xfe, 0xff, 0x00, 0x00, 0x00, 0x01, 0x00, 0x01],
             chunk_crc = 0xe1240dc9\<rparr>,
            \<lparr>chunk_length = 0, chunk_type = [0x49, 0x45, 0x4E, 0x44],
             chunk_data = [], chunk_crc = 0xae426082\<rparr>]"
    using parse_chunks_step [of "[0, 0, 0, 13]"
        "[0x08, 0x1d, 0x01, 0x01, 0x00, 0xfe, 0xff, 0x00, 0x00, 0x00, 0x01, 0x00, 0x01]"
        "[0x49, 0x44, 0x41, 0x54]" "[0xe1, 0x24, 0x0d, 0xc9]" ?iend]
    by (simp add: iend be_uint_def)
  have "parse_chunks ([0, 0, 0, 13] @ [0x49, 0x48, 0x44, 0x52]
        @ (rev (le_bytes 4 w) @ rev (le_bytes 4 h) @ [8, 2, 0, 0, 0])
        @ [0x90, 0x77, 0x34, 0x96] @ (?idat @ ?iend)) =
      Some [\<lparr>chunk_length = 13, chunk_type = [0x49, 0x48, 0x44, 0x52],
             chunk_data = rev (le_bytes 4 w) @ rev (le_bytes 4 h) @ [8, 2, 0, 0, 0],
             chunk_crc = 0x90773496\<rparr>,
            \<lparr>chunk_length = 13, chunk_type = [0x49, 0x44, 0x41, 0x54],
             chunk_data = [0x08, 0x1d, 0x01, 0x01, 0x00, 0xfe, 0xff, 0x00, 0x00, 0x00, 0x01, 0x00, 0x01],
             chunk_crc = 0xe1240dc9\<rparr>,
            \<lparr>chunk_length = 0, chunk_type = [0x49, 0x45, 0x4E, 0x44],
             chunk_data = [], chunk_crc = 0xae426082\<rparr>]"
    by (subst parse_chunks_step) (simp_all add: idat be_uint_def)
  then show ?thesis by simp
qed

lemma png_bytes_layout:
  "create_minimal_png_bytes w h = (if u32 w \<and> u32 h then Inr (png_layout w h) else Inl StructError)"
  by (simp only: png_bytes_eq png_layout_def u32_def) simp

lemma create_minimal_png_eq:
  "create_minimal_png wd ht fn w =
     (if u32 wd \<and> u32 ht
      then if io_fails w fn then Inl OSError
           else Inr (w\<lparr>files := (files w)(fn \<mapsto> png_layout wd ht)\<rparr>)
      else Inl StructError)"
  by (simp add: create_minimal_png_def png_bytes_layout open_wb_def file_write_def)

lemma create_minimal_png_InrD:
  assumes "create_minimal_png wd ht fn w = Inr w'"
  shows "u32 wd" "u32 ht" "\<not> io_fails w fn" "files w' fn = Some (png_layout wd ht)"
    "w' = w\<lparr>files := (files w)(fn \<mapsto> png_layout wd ht)\<rparr>"
  using assms by (auto simp add: create_minimal_png_eq split: if_splits)

lemma png_chunks_layout:
  "png_chunks (png_layout w h) =
     Some [\<lparr>chunk_length = 13, chunk_type = [0x49, 0x48, 0x44, 0x52],
             chunk_data = rev (le_bytes 4 w) @ rev (le_bytes 4 h) @ [8, 2, 0, 0, 0],
             chunk_crc = 0x90773496\<rparr>,
           \<lparr>chunk_length = 13, chunk_type = [0x49, 0x44, 0x41, 0x54],
             chunk_data = [0x08, 0x1d, 0x01, 0x01, 0x00, 0xfe, 0xff, 0x00, 0x00, 0x00, 0x01, 0x00, 0x01],
             chunk_crc = 0xe1240dc9\<rparr>,
           \<lparr>chunk_length = 0, chunk_type = [0x49, 0x45, 0x4E, 0x44],
             chunk_data = [], chunk_crc = 0xae426082\<rparr>]"
proof -
  have "take 8 (png_layout w h) = png_signature"
    by (simp add: png_layout_def png_signature_def)
  moreover have "drop 8 (png_layout w h) =
      [0, 0, 0, 13] @ [0x49, 0x48, 0x44, 0x52]
      @ rev (le_bytes 4 w) @ rev (le_bytes 4 h) @ [8, 2, 0, 0, 0]
      @ [0x90, 0x77, 0x34, 0x96]
      @ [0, 0, 0, 13] @ [0x49, 0x44, 0x41, 0x54]
      @ [0x08, 0x1d, 0x01, 0x01, 0x00, 0xfe, 0xff, 0x00, 0x00, 0x00, 0x01, 0x00, 0x01]
      @ [0xe1, 0x24, 0x0d, 0xc9]
      @ [0, 0, 0, 0] @ [0x49, 0x45, 0x4E, 0x44] @ [0xae, 0x42, 0x60, 0x82]"
    by (simp add: png_layout_def)
  ultimately show ?thesis
    by (simp only: png_chunks_def parse_png simp_thms if_True)
qed


lemma be32_32: "rev (le_bytes 4 32) = [0, 0, 0, 32]"
  by (simp add: le_bytes_4)

lemma ascii_tags:
  "ascii ''IHDR'' = [0x49, 0x48, 0x44, 0x52]"
  "ascii ''IDAT'' = [0x49, 0x44, 0x41, 0x54]"
  "ascii ''IEND'' = [0x49, 0x45, 0x4E, 0x44]"
  by (simp_all add: ascii_def)

lemma crc32_iend: "crc32 [0x49, 0x45, 0x4E, 0x44] = 0xae426082"
  by (simp add: crc32_def crc_update_def crc_shift_def)

lemma crc32_idat:
  "crc32 [0x49, 0x44, 0x41, 0x54,
          0x08, 0x1d, 0x01, 0x01, 0x00, 0xfe, 0xff, 0x00, 0x00, 0x00, 0x01, 0x00, 0x01] = 0xaa1dd392"
  by (simp add: crc32_def crc_update_def crc_shift_def)

lemma crc32_ihdr_32:
  "crc32 [0x49, 0x48, 0x44, 0x52, 0, 0, 0, 32, 0, 0, 0, 32, 8, 2, 0, 0, 0] = 0xfc18eda3"
  by (simp add: crc32_def crc_update_def crc_shift_def)

lemma create_placeholders_main_eq:
  "create_placeholders_main w =
     (if io_fails w ''32x32.png'' \<or> io_fails w ''128x128.png'' \<or> io_fails w ''128x128@2x.png''
      then Inl OSError
      else Inr (w\<lparr>files := (files w)(''32x32.png'' \<mapsto> png_layout 32 32,
                                      ''128x128.png'' \<mapsto> png_layout 128 128,
                                      ''128x128@2x.png'' \<mapsto> png_layout 128 128),
                  stdout := stdout w @ [''PNG files created successfully'']\<rparr>))"
  by (simp add: create_placeholders_main_def create_minimal_png_eq u32_def print_def)

lemma create_placeholders_main_ok:
  assumes "\<not> io_fails w ''32x32.png''" "\<not> io_fails w ''128x128.png''"
    "\<not> io_fails w ''128x128@2x.png''"
  shows "\<exists>w'. create_placeholders_main w = Inr w' \<and>
           stdout w' = stdout w @ [''PNG files created successfully''] \<and>
           files w' ''32x32.png'' \<noteq> None \<and> files w' ''128x128.png'' \<noteq> None \<and>
           files w' ''128x128@2x.png'' \<noteq> None"
  using assms by (simp add: create_placeholders_main_eq)

lemma create_minimal_ico_error: "create_minimal_ico filename w = Inl StructError"
  by (simp add: create_minimal_ico_def ico_parts_error)

lemma ihdr_dims_layout: "u32 w \<Longrightarrow> u32 h \<Longrightarrow> ihdr_dims (png_layout w h) = Some (w, h)"
  by (simp add: ihdr_dims_def png_chunks_layout be_uint_u32 u32_def)

section \<open>The claims\<close>

subsection \<open>The scripts as a whole\<close>

text \<open>
  C1. For every invocation of either generator (\<^verbatim>\<open>create_minimal_ico\<close>, and
  \<^verbatim>\<open>create_minimal_png\<close> with the three fixed width/height pairs), if no file-system I/O
  failure occurs then execution completes normally with no other kind of error: all output
  files are written and the fixed confirmation message is printed.

  The PNG script does so (\<open>create_placeholders_main_ok\<close>). The ICO script does not: in every
  state, also one where no file operation fails, \<^verbatim>\<open>create_ico.py\<close> ends with
  \<^verbatim>\<open>struct.error\<close>, because the format of the bitmap header has 13 items and the call
  passes 11 values. Nothing is written and nothing is printed.
\<close>

theorem ico_script_raises: "create_ico_main w = Inl StructError"
  by (simp add: create_ico_main_def create_minimal_ico_error)

subsection \<open>The PNG files\<close>

text \<open>
  C2. For every width and height passed to \<^verbatim>\<open>create_minimal_png\<close>, the CRC fields emitted for
  the IHDR and IDAT chunks equal the fixed constants 0x90773496 and 0xe1240dc9, and the CRC
  field of the IEND chunk equals 0xae426082, whatever the width and height are.
\<close>

theorem png_crc_fields_constant:
  assumes "create_minimal_png width height filename w = Inr w'"
  shows "\<exists>bs. files w' filename = Some bs \<and>
           map_option (map (\<lambda>c. (chunk_type c, chunk_crc c))) (png_chunks bs) =
             Some [(ascii ''IHDR'', 0x90773496), (ascii ''IDAT'', 0xe1240dc9),
                   (ascii ''IEND'', 0xae426082)]"
  using create_minimal_png_InrD(4) [OF assms]
  by (simp add: png_chunks_layout ascii_tags)

theorem png_crc_fields_constant_witness:
  "\<exists>w'. create_minimal_png 32 32 ''32x32.png'' empty_world = Inr w' \<and>
     (\<exists>bs. files w' ''32x32.png'' = Some bs \<and>
           map_option (map (\<lambda>c. (chunk_type c, chunk_crc c))) (png_chunks bs) =
             Some [(ascii ''IHDR'', 0x90773496), (ascii ''IDAT'', 0xe1240dc9),
                   (ascii ''IEND'', 0xae426082)])"
proof -
  obtain w' where h: "create_minimal_png 32 32 ''32x32.png'' empty_world = Inr w'"
    by (simp add: create_minimal_png_eq u32_def empty_world_def)
  show ?thesis
    by (rule exI [of _ w']) (rule conjI [OF h png_crc_fields_constant [OF h]])
qed

text \<open>
  C3. For every chunk (IHDR, IDAT, IEND) in every PNG file emitted by \<^verbatim>\<open>create_minimal_png\<close>,
  the 4-byte length field equals the actual byte count of the chunk's data, and the 4-byte
  CRC field equals the standard CRC-32 computed over the 4-byte type tag concatenated with
  the chunk's data bytes.

  The code does not meet this. For \<^verbatim>\<open>create_minimal_png(32, 32, '32x32.png')\<close> the list below
  pairs, chunk by chunk, the CRC field of the file with the CRC-32 of type and data: the
  IHDR field is 0x90773496 where the CRC-32 is 0xfc18eda3, the IDAT field is 0xe1240dc9
  where the CRC-32 is 0xaa1dd392. Only the IEND chunk carries its CRC-32.
\<close>

theorem png_crc_mismatch:
  "map_sum id chunk_crcs (create_minimal_png_bytes 32 32) =
     Inr (Some [(0x90773496, 0xfc18eda3), (0xe1240dc9, 0xaa1dd392), (0xae426082, 0xae426082)])"
proof -
  have "create_minimal_png_bytes 32 32 = Inr (png_layout 32 32)"
    by (simp add: png_bytes_layout u32_def)
  moreover have "chunk_crcs (png_layout 32 32) =
      Some [(0x90773496, 0xfc18eda3), (0xe1240dc9, 0xaa1dd392), (0xae426082, 0xae426082)]"
    by (simp add: chunk_crcs_def png_chunks_layout le_bytes_4 crc32_iend crc32_idat crc32_ihdr_32)
  ultimately show ?thesis by simp
qed

text \<open>
  C6. For every width and height, the IHDR chunk emitted by \<^verbatim>\<open>create_minimal_png\<close> has a
  13-byte payload: the width (4 bytes, big-endian), the height (4 bytes, big-endian), bit
  depth 8, colour type 2, compression method 0, filter method 0, interlace method 0. In
  particular, after the script has run, the two fields of \<^verbatim>\<open>32x32.png\<close> decode to 32 and 32,
  and those of \<^verbatim>\<open>128x128.png\<close> and \<^verbatim>\<open>128x128@2x.png\<close> to 128 and 128.
\<close>

theorem ihdr_payload:
  "(create_minimal_png width height filename w = Inr w' \<longrightarrow>
      (\<exists>bs c cs. files w' filename = Some bs \<and> png_chunks bs = Some (c # cs) \<and>
         chunk_type c = ascii ''IHDR'' \<and> length (chunk_data c) = 13 \<and>
         be_uint (take 4 (chunk_data c)) = width \<and>
         be_uint (take 4 (drop 4 (chunk_data c))) = height \<and>
         drop 8 (chunk_data c) = [8, 2, 0, 0, 0])) \<and>
   (create_placeholders_main w0 = Inr w1 \<longrightarrow>
      Option.bind (files w1 ''32x32.png'') ihdr_dims = Some (32, 32) \<and>
      Option.bind (files w1 ''128x128.png'') ihdr_dims = Some (128, 128) \<and>
      Option.bind (files w1 ''128x128@2x.png'') ihdr_dims = Some (128, 128))"
proof (intro conjI impI)
  assume a: "create_minimal_png width height filename w = Inr w'"
  let ?d = "rev (le_bytes 4 width) @ rev (le_bytes 4 height) @ [8, 2, 0, 0, 0 :: byte]"
  have "be_uint (take 4 ?d) = width" "be_uint (take 4 (drop 4 ?d)) = height"
    using create_minimal_png_InrD(1,2) [OF a] by (simp_all add: be_uint_u32 u32_def)
  moreover have "length ?d = 13" "drop 8 ?d = [8, 2, 0, 0, 0]"
    by simp_all
  ultimately show "\<exists>bs c cs. files w' filename = Some bs \<and> png_chunks bs = Some (c # cs) \<and>
         chunk_type c = ascii ''IHDR'' \<and> length (chunk_data c) = 13 \<and>
         be_uint (take 4 (chunk_data c)) = width \<and>
         be_uint (take 4 (drop 4 (chunk_data c))) = height \<and>
         drop 8 (chunk_data c) = [8, 2, 0, 0, 0]"
    using create_minimal_png_InrD(4) [OF a]
    by (simp add: png_chunks_layout ascii_tags)
next
  assume "create_placeholders_main w0 = Inr w1"
  then have f: "files w1 ''32x32.png'' = Some (png_layout 32 32)"
    "files w1 ''128x128.png'' = Some (png_layout 128 128)"
    "files w1 ''128x128@2x.png'' = Some (png_layout 128 128)"
    by (auto simp add: create_placeholders_main_eq split: if_splits)
  have d: "ihdr_dims (png_layout 32 32) = Some (32, 32)"
    "ihdr_dims (png_layout 128 128) = Some (128, 128)"
    by (simp_all add: ihdr_dims_layout u32_def)
  show "Option.bind (files w1 ''32x32.png'') ihdr_dims = Some (32, 32)"
    by (simp add: f d)
  show "Option.bind (files w1 ''128x128.png'') ihdr_dims = Some (128, 128)"
    by (simp add: f d)
  show "Option.bind (files w1 ''128x128@2x.png'') ihdr_dims = Some (128, 128)"
    by (simp add: f d)
qed

theorem ihdr_payload_witness:
  "\<exists>w' w1. create_minimal_png 128 128 ''128x128.png'' empty_world = Inr w' \<and>
     create_placeholders_main empty_world = Inr w1 \<and>
     (\<exists>bs c cs. files w' ''128x128.png'' = Some bs \<and> png_chunks bs = Some (c # cs) \<and>
         chunk_type c = ascii ''IHDR'' \<and> length (chunk_data c) = 13 \<and>
         be_uint (take 4 (chunk_data c)) = 128 \<and>
         be_uint (take 4 (drop 4 (chunk_data c))) = 128 \<and>
         drop 8 (chunk_data c) = [8, 2, 0, 0, 0]) \<and>
     Option.bind (files w1 ''32x32.png'') ihdr_dims = Some (32, 32) \<and>
     Option.bind (files w1 ''128x128.png'') ihdr_dims = Some (128, 128) \<and>
     Option.bind (files w1 ''128x128@2x.png'') ihdr_dims = Some (128, 128)"
proof -
  obtain w' where h1: "create_minimal_png 128 128 ''128x128.png'' empty_world = Inr w'"
    by (simp add: create_minimal_png_eq u32_def empty_world_def)
  obtain w1 where h2: "create_placeholders_main empty_world = Inr w1"
    by (simp add: create_placeholders_main_eq empty_world_def)
  note t = ihdr_payload [of 128 128 "''128x128.png''" empty_world w' empty_world w1]
  from t h1 have a: "\<exists>bs c cs. files w' ''128x128.png'' = Some bs \<and>
         png_chunks bs = Some (c # cs) \<and>
         chunk_type c = ascii ''IHDR'' \<and> length (chunk_data c) = 13 \<and>
         be_uint (take 4 (chunk_data c)) = 128 \<and>
         be_uint (take 4 (drop 4 (chunk_data c))) = 128 \<and>
         drop 8 (chunk_data c) = [8, 2, 0, 0, 0]"
    by (rule conjunct1 [THEN mp])
  from t h2 have b: "Option.bind (files w1 ''32x32.png'') ihdr_dims = Some (32, 32) \<and>
      Option.bind (files w1 ''128x128.png'') ihdr_dims = Some (128, 128) \<and>
      Option.bind (files w1 ''128x128@2x.png'') ihdr_dims = Some (128, 128)"
    by (rule conjunct2 [THEN mp])
  show ?thesis
    by (rule exI [of _ w'], rule exI [of _ w1]) (intro conjI h1 h2 a b [THEN conjunct1]
        b [THEN conjunct2, THEN conjunct1] b [THEN conjunct2, THEN conjunct2])
qed

text \<open>
  C7. Every PNG byte sequence emitted by \<^verbatim>\<open>create_minimal_png\<close> begins with the fixed 8-byte
  signature 89 50 4E 47 0D 0A 1A 0A, and the chunks following the signature are exactly
  IHDR, IDAT, IEND in that order, with no other chunk.
\<close>

theorem png_signature_and_chunk_order:
  assumes "create_minimal_png width height filename w = Inr w'"
  shows "\<exists>bs. files w' filename = Some bs \<and>
           take 8 bs = [0x89, 0x50, 0x4E, 0x47, 0x0D, 0x0A, 0x1A, 0x0A] \<and>
           map_option (map chunk_type) (parse_chunks (drop 8 bs)) =
             Some [ascii ''IHDR'', ascii ''IDAT'', ascii ''IEND'']"
proof -
  have "take 8 (png_layout width height) = [0x89, 0x50, 0x4E, 0x47, 0x0D, 0x0A, 0x1A, 0x0A]"
    by (simp add: png_layout_def)
  moreover have "map_option (map chunk_type) (parse_chunks (drop 8 (png_layout width height))) =
      Some [ascii ''IHDR'', ascii ''IDAT'', ascii ''IEND'']"
    using png_chunks_layout [of width height]
    by (simp add: png_chunks_def ascii_tags split: if_splits)
  ultimately show ?thesis
    using create_minimal_png_InrD(4) [OF assms] by simp
qed

theorem png_signature_and_chunk_order_witness:
  "\<exists>w'. create_minimal_png 128 128 ''128x128@2x.png'' empty_world = Inr w' \<and>
     (\<exists>bs. files w' ''128x128@2x.png'' = Some bs \<and>
           take 8 bs = [0x89, 0x50, 0x4E, 0x47, 0x0D, 0x0A, 0x1A, 0x0A] \<and>
           map_option (map chunk_type) (parse_chunks (drop 8 bs)) =
             Some [ascii ''IHDR'', ascii ''IDAT'', ascii ''IEND''])"
proof -
  obtain w' where h: "create_minimal_png 128 128 ''128x128@2x.png'' empty_world = Inr w'"
    by (simp add: create_minimal_png_eq u32_def empty_world_def)
  show ?thesis
    by (rule exI [of _ w']) (rule conjI [OF h png_signature_and_chunk_order [OF h]])
qed



text \<open>
  C10. The constant 0xae426082 written as the CRC of the IEND chunk equals the standard
  CRC-32 of the 4-byte type tag IEND with empty data, so in every file that
  \<^verbatim>\<open>create_minimal_png\<close> emits the IEND chunk, which is the last one, is a valid PNG chunk:
  its length field is the length of its (empty) data and its CRC field is the CRC-32 of
  type and data.
\<close>

theorem iend_crc_standard:
  "crc32 (ascii ''IEND'' @ []) = 0xae426082 \<and>
   (create_minimal_png width height filename w = Inr w' \<longrightarrow>
      (\<exists>bs cs c. files w' filename = Some bs \<and> png_chunks bs = Some (cs @ [c]) \<and>
         chunk_type c = ascii ''IEND'' \<and> chunk_data c = [] \<and>
         chunk_length c = int (length (chunk_data c)) \<and>
         chunk_crc c = crc32 (chunk_type c @ chunk_data c)))"
proof (intro conjI impI)
  show "crc32 (ascii ''IEND'' @ []) = 0xae426082"
    by (simp add: ascii_tags crc32_iend)
next
  assume a: "create_minimal_png width height filename w = Inr w'"
  let ?c1 = "\<lparr>chunk_length = 13, chunk_type = [0x49, 0x48, 0x44, 0x52],
             chunk_data = rev (le_bytes 4 width) @ rev (le_bytes 4 height) @ [8, 2, 0, 0, 0],
             chunk_crc = 0x90773496\<rparr>"
  let ?c2 = "\<lparr>chunk_length = 13, chunk_type = [0x49, 0x44, 0x41, 0x54],
             chunk_data = [0x08, 0x1d, 0x01, 0x01, 0x00, 0xfe, 0xff, 0x00, 0x00, 0x00, 0x01, 0x00, 0x01],
             chunk_crc = 0xe1240dc9\<rparr>"
  let ?c3 = "\<lparr>chunk_length = 0, chunk_type = [0x49, 0x45, 0x4E, 0x44],
             chunk_data = [], chunk_crc = 0xae426082\<rparr>"
  have "png_chunks (png_layout width height) = Some ([?c1, ?c2] @ [?c3])"
    by (simp add: png_chunks_layout)
  moreover have "chunk_type ?c3 = ascii ''IEND''" "chunk_data ?c3 = []"
    "chunk_length ?c3 = int (length (chunk_data ?c3))"
    "chunk_crc ?c3 = crc32 (chunk_type ?c3 @ chunk_data ?c3)"
    by (simp_all add: ascii_tags crc32_iend)
  ultimately show "\<exists>bs cs c. files w' filename = Some bs \<and> png_chunks bs = Some (cs @ [c]) \<and>
         chunk_type c = ascii ''IEND'' \<and> chunk_data c = [] \<and>
         chunk_length c = int (length (chunk_data c)) \<and>
         chunk_crc c = crc32 (chunk_type c @ chunk_data c)"
    using create_minimal_png_InrD(4) [OF a] by blast
qed

theorem iend_crc_standard_witness:
  "\<exists>w'. create_minimal_png 32 32 ''32x32.png'' empty_world = Inr w' \<and>
     crc32 (ascii ''IEND'' @ []) = 0xae426082 \<and>
     (\<exists>bs cs c. files w' ''32x32.png'' = Some bs \<and> png_chunks bs = Some (cs @ [c]) \<and>
         chunk_type c = ascii ''IEND'' \<and> chunk_data c = [] \<and>
         chunk_length c = int (length (chunk_data c)) \<and>
         chunk_crc c = crc32 (chunk_type c @ chunk_data c))"
proof -
  obtain w' where h: "create_minimal_png 32 32 ''32x32.png'' empty_world = Inr w'"
    by (simp add: create_minimal_png_eq u32_def empty_world_def)
  note t = iend_crc_standard [of 32 32 "''32x32.png''" empty_world w']
  show ?thesis
    by (rule exI [of _ w'])
      (intro conjI h t [THEN conjunct1] t [THEN conjunct2, THEN mp, OF h])
qed

subsection \<open>The ICO file\<close>

text \<open>
  C4. The byte sequence produced by \<^verbatim>\<open>create_minimal_ico\<close> for width = height = 32 consists
  of a 6-byte file header, a 16-byte directory entry, a 40-byte bitmap-info header (height
  field twice the true height, planes 1, 32 bits per pixel, compression 0, image size the
  buffer length) and a zero-filled pixel buffer of 4096 bytes, 4158 bytes in all.

  The code does not produce it. \<^verbatim>\<open>struct.pack\<close> is called for the bitmap header with a
  format of 13 items and 11 values, and raises \<^verbatim>\<open>struct.error\<close>; the format also describes
  36 bytes, not the 40 of the comment beside it.
\<close>

theorem ico_bmp_header_pack_fails:
  "pack ''<IHHHHHIIHHHII'' [40, 32, 32 * 2, 1, 32, 0, 4096, 0, 0, 0, 0] = Inl StructError \<and>
   map_option (length \<circ> snd) (parse_format ''<IHHHHHIIHHHII'') = Some 13 \<and>
   calcsize ''<IHHHHHIIHHHII'' = Some 36 \<and>
   create_minimal_ico_parts = Inl StructError"
  by (simp add: pack_def calcsize_def parse_format_bmp ico_parts_error)

text \<open>
  C5. In the bytes of \<^verbatim>\<open>icon.ico\<close> emitted by \<^verbatim>\<open>create_minimal_ico\<close>, offset 0 holds 00 00
  (reserved), offset 2 holds 01 00 (type 1), offset 4 holds 01 00 (count 1), and the offset
  field of the directory entry, bytes 18 to 21, decodes to 22.

  The code emits no byte: whatever the file name and the state, the call ends with
  \<^verbatim>\<open>struct.error\<close> before the file is opened, so no file is created or changed.
\<close>

theorem ico_nothing_written:
  "written filename (create_minimal_ico filename w) = Inl StructError"
  by (simp add: written_def create_minimal_ico_error)

subsection \<open>Two runs of the ICO generator\<close>


end
